theory Spec2Isabelle
  imports Main
begin

section \<open>Data model\<close>

text \<open>
  Go's \<^verbatim>\<open>error\<close> values. \<^verbatim>\<open>errors.New(msg)\<close> is the only constructor this package
  calls itself; every other error reaches it from \<^verbatim>\<open>os/exec\<close> or from the MCP SDK and
  is passed through unchanged.
\<close>

datatype error = errors_New string | External string

fun Error :: "error \<Rightarrow> string" where
  "Error (errors_New msg) = msg"
| "Error (External msg) = msg"

text \<open>
  \<^verbatim>\<open>invokeOptions\<close> (invoke.go). A nil pointer or nil map is \<open>None\<close>. The element type of
  \<^verbatim>\<open>map[string]any\<close> is left open as \<open>'c\<close>.
\<close>

record 'c invokeOptions =
  ApprovalPolicy :: "string option"
  BaseInstructions :: "string option"
  Config :: "'c option"
  Cwd :: "string option"
  IncludePlanTool :: "bool option"
  Model :: "string option"
  Profile :: "string option"
  Sandbox :: "string option"

text \<open>The composite literal \<^verbatim>\<open>invokeOptions{}\<close>: every field nil.\<close>

definition invokeOptions_zero :: "'c invokeOptions" where
  "invokeOptions_zero =
     \<lparr>ApprovalPolicy = None, BaseInstructions = None, Config = None, Cwd = None,
      IncludePlanTool = None, Model = None, Profile = None, Sandbox = None\<rparr>"

text \<open>
  \<^verbatim>\<open>type InvokeOption func(*invokeOptions) error\<close>: the function receives the structure
  by pointer and returns an error. The model returns the error (\<open>None\<close> is nil) together
  with the structure as the call leaves it.
\<close>

type_synonym 'c InvokeOption = "'c invokeOptions \<Rightarrow> error option \<times> 'c invokeOptions"

section \<open>Option builder\<close>

definition WithApprovalPolicy :: "string \<Rightarrow> 'c InvokeOption" where
  "WithApprovalPolicy approvalPolicy = (\<lambda>opts.
     if approvalPolicy = ''untrusted'' \<or> approvalPolicy = ''on-failure''
        \<or> approvalPolicy = ''never''
     then (None, opts\<lparr>ApprovalPolicy := Some approvalPolicy\<rparr>)
     else (Some (errors_New (''invalid approval-policy: '' @ approvalPolicy)), opts))"

definition WithBaseInstructions :: "string \<Rightarrow> 'c InvokeOption" where
  "WithBaseInstructions baseInstructions = (\<lambda>opts.
     (None, opts\<lparr>BaseInstructions := Some baseInstructions\<rparr>))"

text \<open>The argument of \<^verbatim>\<open>WithConfig\<close> is a map, which may itself be nil.\<close>

definition WithConfig :: "'c option \<Rightarrow> 'c InvokeOption" where
  "WithConfig config = (\<lambda>opts. (None, opts\<lparr>Config := config\<rparr>))"

definition WithCwd :: "string \<Rightarrow> 'c InvokeOption" where
  "WithCwd cwd = (\<lambda>opts. (None, opts\<lparr>Cwd := Some cwd\<rparr>))"

definition WithIncludePlanTool :: "bool \<Rightarrow> 'c InvokeOption" where
  "WithIncludePlanTool includePlanTool = (\<lambda>opts.
     (None, opts\<lparr>IncludePlanTool := Some includePlanTool\<rparr>))"

definition WithModel :: "string \<Rightarrow> 'c InvokeOption" where
  "WithModel model = (\<lambda>opts. (None, opts\<lparr>Model := Some model\<rparr>))"

definition WithProfile :: "string \<Rightarrow> 'c InvokeOption" where
  "WithProfile profile = (\<lambda>opts. (None, opts\<lparr>Profile := Some profile\<rparr>))"

definition WithSandbox :: "string \<Rightarrow> 'c InvokeOption" where
  "WithSandbox sandbox = (\<lambda>opts.
     if sandbox = ''read-only'' \<or> sandbox = ''workspace-write''
        \<or> sandbox = ''danger-full-access''
     then (None, opts\<lparr>Sandbox := Some sandbox\<rparr>)
     else (Some (errors_New (''invalid sandbox: '' @ sandbox)), opts))"

text \<open>
  The loop at the head of \<^verbatim>\<open>Invoke\<close>:
  \<^verbatim>\<open>for _, opt := range options { if err := opt(&opts); err != nil { return "", err } }\<close>
\<close>

fun applyOptions :: "'c InvokeOption list \<Rightarrow> 'c invokeOptions \<Rightarrow> error option \<times> 'c invokeOptions" where
  "applyOptions [] opts = (None, opts)"
| "applyOptions (opt # rest) opts =
     (case opt opts of
        (Some err, opts') \<Rightarrow> (Some err, opts')
      | (None, opts') \<Rightarrow> applyOptions rest opts')"

section \<open>Process invoker\<close>

text \<open>
  \<^verbatim>\<open>exec.Cmd\<close>, with the fields this package reads or writes. \<open>Env = None\<close> is the nil
  slice, for which \<^verbatim>\<open>os/exec\<close> hands the child the parent's environment; the empty
  \<open>Dir\<close> is the caller's working directory; \<open>Stderr = None\<close> is the nil writer;
  \<open>Err\<close> is the error, if any, that the command will report when it is started.
  \<open>'w\<close> is the type of \<^verbatim>\<open>io.Writer\<close> values.
\<close>

record 'w Cmd =
  Path :: string
  Args :: "string list"
  Env :: "string list option"
  Dir :: string
  Stderr :: "'w option"
  Err :: "string option"

text \<open>
  The struct \<^verbatim>\<open>Codex\<close> (codex.go). Its \<^verbatim>\<open>authMutex\<close> carries no data; taking and
  releasing it show up as the events \<open>Lock\<close> and \<open>Unlock\<close> below.
\<close>

record 'w Codex =
  executablePath :: string
  logWriter :: "'w option"
  logLevel :: string

type_synonym 'w CodexOption = "'w Codex \<Rightarrow> 'w Codex"

definition SetExecutablePath :: "string \<Rightarrow> 'w Codex \<Rightarrow> 'w Codex" where
  "SetExecutablePath path codex = codex\<lparr>executablePath := path\<rparr>"

definition SetLogger :: "'w option \<Rightarrow> string \<Rightarrow> 'w Codex \<Rightarrow> 'w Codex" where
  "SetLogger w level codex = codex\<lparr>logWriter := w, logLevel := level\<rparr>"

definition WithExecutablePath :: "string \<Rightarrow> 'w CodexOption" where
  "WithExecutablePath path = (\<lambda>codex. SetExecutablePath path codex)"

definition WithLogger :: "'w option \<Rightarrow> string \<Rightarrow> 'w CodexOption" where
  "WithLogger w level = (\<lambda>codex. SetLogger w level codex)"

definition New :: "'w CodexOption list \<Rightarrow> 'w Codex" where
  "New options =
     fold (\<lambda>opt codex. opt codex) options
       \<lparr>executablePath = ''codex'', logWriter = None, logLevel = ''info''\<rparr>"

text \<open>
  What lies outside the package: \<^verbatim>\<open>os.Environ()\<close>, \<^verbatim>\<open>cmd.Run()\<close>, the SDK's
  \<^verbatim>\<open>client.Connect\<close> over a \<^verbatim>\<open>CommandTransport\<close> and \<^verbatim>\<open>session.CallTool\<close>. A process
  is started only inside \<open>Run\<close> and \<open>Connect\<close>. A failure is given by its message.
\<close>

datatype 'c any = VString string | VBool bool | VMap 'c

record 'c CallToolParams =
  Name :: string
  Arguments :: "string \<rightharpoonup> 'c any"

text \<open>
  \<^verbatim>\<open>mcp.Content\<close> is an interface; \<^verbatim>\<open>*mcp.TextContent\<close> is one of its implementations,
  \<open>OtherContent\<close> stands for the rest (image, audio, resource).
\<close>

datatype Content = TextContent string | OtherContent

record CallToolResult =
  Content :: "Content list"
  IsError :: bool

record ('w, 'c) World =
  Environ :: "string list"
  LookPath :: "string \<Rightarrow> string \<times> string option"
  Run :: "'w Cmd \<Rightarrow> string option"
  Connect :: "'w Cmd \<Rightarrow> string option"
  CallTool :: "'w Cmd \<Rightarrow> 'c CallToolParams \<Rightarrow> string + CallToolResult"

text \<open>The calls a run makes on the outside world and on the mutex, in order.\<close>

datatype ('w, 'c) event =
    Lock
  | Unlock
  | EvRun "'w Cmd"
  | EvConnect "'w Cmd"
  | EvCallTool "'c CallToolParams"
  | EvClose

text \<open>
  \<^verbatim>\<open>filepath.Base\<close> of the standard library, as on Unix: the last element of the path
  once trailing slashes are gone; \<^verbatim>\<open>"."\<close> for the empty path and \<^verbatim>\<open>"/"\<close> for a path of
  slashes only.
\<close>

definition filepath_Base :: "string \<Rightarrow> string" where
  "filepath_Base path =
     (if path = [] then ''.''
      else
        (let stripped = rev (dropWhile (\<lambda>c. c = CHR ''/'') (rev path));
             elem = rev (takeWhile (\<lambda>c. c \<noteq> CHR ''/'') (rev stripped))
         in if elem = [] then ''/'' else elem))"

text \<open>
  \<^verbatim>\<open>exec.CommandContext(ctx, name, arg...)\<close> of the standard library. It fills in
  \<open>Path\<close> and \<open>Args\<close>; a name without a directory part is looked up on the search path,
  the file found replaces \<open>Path\<close> and a failure of the look-up is kept in \<open>Err\<close> for
  the moment the command is started. The look-up, \<^verbatim>\<open>exec.LookPath\<close>, is the world's; it
  returns a path, empty if there is none, and an error. The context serves cancellation
  alone and is left out.
\<close>

definition exec_CommandContext :: "('w, 'c) World \<Rightarrow> string \<Rightarrow> string list \<Rightarrow> 'w Cmd" where
  "exec_CommandContext W name arg =
     (let cmd = \<lparr>Path = name, Args = name # arg, Env = None, Dir = [], Stderr = None,
                 Err = None\<rparr>
      in if filepath_Base name \<noteq> name then cmd
         else
           (case LookPath W name of
              (lp, err) \<Rightarrow>
                (let cmd1 = (if lp \<noteq> [] then cmd\<lparr>Path := lp\<rparr> else cmd)
                 in case err of None \<Rightarrow> cmd1 | Some e \<Rightarrow> cmd1\<lparr>Err := Some e\<rparr>)))"

text \<open>
  \<^verbatim>\<open>func (codex *Codex) command(ctx, arg ...string) (*exec.Cmd, error)\<close>. \<open>Inl err\<close> is
  the return \<^verbatim>\<open>nil, err\<close>. \<^verbatim>\<open>fmt.Sprintf\<close> with two \<^verbatim>\<open>%s\<close> verbs is concatenation.
\<close>

definition command :: "('w, 'c) World \<Rightarrow> 'w Codex \<Rightarrow> string list \<Rightarrow> error + 'w Cmd" where
  "command W codex arg =
     (let cmd = exec_CommandContext W (executablePath codex) arg in
      if logWriter codex \<noteq> None then
        (if logLevel codex = ''error'' \<or> logLevel codex = ''warn''
            \<or> logLevel codex = ''info'' \<or> logLevel codex = ''debug''
            \<or> logLevel codex = ''trace'' \<or> logLevel codex = ''off''
         then Inr (cmd\<lparr>Stderr := logWriter codex,
                       Env := Some ((''RUST_LOG=codex_core='' @ logLevel codex
                                       @ '',codex_tui='' @ logLevel codex) # Environ W)\<rparr>)
         else Inl (errors_New ''invalid log level''))
      else Inr cmd)"

section \<open>Authentication\<close>

text \<open>
  \<^verbatim>\<open>Login\<close> (login.go) returns its error and the events of the run. The deferred
  \<^verbatim>\<open>Unlock\<close> closes every path.
\<close>

definition Login :: "('w, 'c) World \<Rightarrow> 'w Codex \<Rightarrow> string \<Rightarrow> error option \<times> ('w, 'c) event list" where
  "Login W codex apiKey =
     (case command W codex [''login'', ''--api-key'', apiKey] of
        Inl err \<Rightarrow> (Some err, [Lock, Unlock])
      | Inr cmd \<Rightarrow>
          (case Run W cmd of
             Some msg \<Rightarrow> (Some (External msg), [Lock, EvRun cmd, Unlock])
           | None \<Rightarrow> (None, [Lock, EvRun cmd, Unlock])))"

section \<open>Tool-call session\<close>

text \<open>
  The argument mapping that \<^verbatim>\<open>Invoke\<close> builds between \<^verbatim>\<open>arguments := map[string]any{\<close>
  and the last \<^verbatim>\<open>if opts.Sandbox != nil\<close>.
\<close>

definition arguments :: "string \<Rightarrow> 'c invokeOptions \<Rightarrow> (string \<rightharpoonup> 'c any)" where
  "arguments prompt opts =
     (let a0 = [''prompt'' \<mapsto> VString prompt];
          a1 = (case ApprovalPolicy opts of None \<Rightarrow> a0
                | Some v \<Rightarrow> a0(''approval-policy'' \<mapsto> VString v));
          a2 = (case BaseInstructions opts of None \<Rightarrow> a1
                | Some v \<Rightarrow> a1(''base-instructions'' \<mapsto> VString v));
          a3 = (case Config opts of None \<Rightarrow> a2
                | Some v \<Rightarrow> a2(''config'' \<mapsto> VMap v));
          a4 = (case IncludePlanTool opts of None \<Rightarrow> a3
                | Some v \<Rightarrow> a3(''include-plan-tool'' \<mapsto> VBool v));
          a5 = (case Model opts of None \<Rightarrow> a4
                | Some v \<Rightarrow> a4(''model'' \<mapsto> VString v));
          a6 = (case Profile opts of None \<Rightarrow> a5
                | Some v \<Rightarrow> a5(''profile'' \<mapsto> VString v))
      in (case Sandbox opts of None \<Rightarrow> a6
          | Some v \<Rightarrow> a6(''sandbox'' \<mapsto> VString v)))"

text \<open>
  A Go function either returns or panics. The two panics of \<^verbatim>\<open>Invoke\<close> come from
  \<^verbatim>\<open>res.Content[0].(*mcp.TextContent)\<close>: the index, then the type assertion.
\<close>

datatype panic = IndexOutOfRange | InterfaceConversion

datatype 'a outcome = Returned 'a | Panicked panic

text \<open>
  \<^verbatim>\<open>Invoke\<close> (invoke.go). \<open>Inl err\<close> is the return \<^verbatim>\<open>"", err\<close> and \<open>Inr text\<close> the
  return \<^verbatim>\<open>text, nil\<close>. Once \<^verbatim>\<open>Connect\<close> has succeeded, the deferred
  \<^verbatim>\<open>session.Close()\<close> ends every path, a panic included.
\<close>

definition Invoke :: "('w, 'c) World \<Rightarrow> 'w Codex \<Rightarrow> string \<Rightarrow> 'c InvokeOption list
    \<Rightarrow> (error + string) outcome \<times> ('w, 'c) event list" where
  "Invoke W codex prompt options =
     (case applyOptions options invokeOptions_zero of
        (Some err, _) \<Rightarrow> (Returned (Inl err), [])
      | (None, opts) \<Rightarrow>
          (case command W codex [''mcp''] of
             Inl err \<Rightarrow> (Returned (Inl err), [])
           | Inr cmd0 \<Rightarrow>
               (let cmd = (case Cwd opts of None \<Rightarrow> cmd0 | Some d \<Rightarrow> cmd0\<lparr>Dir := d\<rparr>) in
                case Connect W cmd of
                  Some msg \<Rightarrow> (Returned (Inl (External msg)), [EvConnect cmd])
                | None \<Rightarrow>
                    (let params = \<lparr>Name = ''codex'', Arguments = arguments prompt opts\<rparr> in
                     case CallTool W cmd params of
                       Inl msg \<Rightarrow>
                         (Returned (Inl (External msg)),
                          [EvConnect cmd, EvCallTool params, EvClose])
                     | Inr res \<Rightarrow>
                         (case Content res of
                            [] \<Rightarrow> Panicked IndexOutOfRange
                          | TextContent text # _ \<Rightarrow>
                              if IsError res then Returned (Inl (errors_New text))
                              else Returned (Inr text)
                          | OtherContent # _ \<Rightarrow> Panicked InterfaceConversion,
                          [EvConnect cmd, EvCallTool params, EvClose])))))"

text \<open>
  A stand-in for the outside world in which every executable is found in
  \<^verbatim>\<open>/usr/bin\<close>, every process runs and every connection succeeds, and the tool call
  answers \<open>resp\<close> whatever it is asked.
\<close>

definition mock_World :: "string list \<Rightarrow> string + CallToolResult \<Rightarrow> ('w, 'c) World" where
  "mock_World env resp =
     \<lparr>Environ = env, LookPath = (\<lambda>name. (''/usr/bin/'' @ name, None)),
      Run = (\<lambda>_. None), Connect = (\<lambda>_. None), CallTool = (\<lambda>_ _. resp)\<rparr>"

section \<open>Callers\<close>

text \<open>
  The options a caller outside the package can pass to \<^verbatim>\<open>Invoke\<close>. The struct
  \<^verbatim>\<open>invokeOptions\<close> and its fields are unexported, so an option is made by one of the
  eight builders or is a function of the caller's own, which leaves the structure as it
  finds it.
\<close>

definition caller_options :: "'c InvokeOption set" where
  "caller_options =
     range WithApprovalPolicy \<union> range WithBaseInstructions \<union> range WithConfig
     \<union> range WithCwd \<union> range WithIncludePlanTool \<union> range WithModel
     \<union> range WithProfile \<union> range WithSandbox
     \<union> {opt. \<forall>opts. snd (opt opts) = opts}"

text \<open>
  What a list of options supplies through the builder \<open>with\<close>: nothing, when no option
  of the list is made by \<open>with\<close>, and otherwise the value given to the last option that
  is.
\<close>

definition supplied :: "('v \<Rightarrow> 'c InvokeOption) \<Rightarrow> 'c InvokeOption list \<Rightarrow> 'v option \<Rightarrow> bool" where
  "supplied with options r =
     (case r of
        None \<Rightarrow> (\<forall>v. with v \<notin> set options)
      | Some v \<Rightarrow> (\<exists>earlier later. options = earlier @ with v # later
                     \<and> (\<forall>v'. with v' \<notin> set later)))"

text \<open>
  \<^verbatim>\<open>sync.Mutex\<close> of the standard library, over the events of several calls running at
  once, each event tagged with its call: \<^verbatim>\<open>Lock\<close> returns only while the mutex is free
  and \<^verbatim>\<open>Unlock\<close> needs it held. The first argument tells whether the mutex is held.
\<close>

fun mutex_ok :: "bool \<Rightarrow> ('i \<times> ('w, 'c) event) list \<Rightarrow> bool" where
  "mutex_ok held [] = True"
| "mutex_ok held ((i, Lock) # es) = (\<not> held \<and> mutex_ok True es)"
| "mutex_ok held ((i, Unlock) # es) = (held \<and> mutex_ok False es)"
| "mutex_ok held ((i, e) # es) = mutex_ok held es"

section \<open>Auxiliary facts\<close>

lemma exec_CommandContext_fields:
  "Args (exec_CommandContext W name arg) = name # arg"
  "Env (exec_CommandContext W name arg) = None"
  "Dir (exec_CommandContext W name arg) = []"
  "Stderr (exec_CommandContext W name arg) = None"
  by (simp_all add: exec_CommandContext_def Let_def split: prod.split option.split)

lemma mock_CommandContext:
  "exec_CommandContext (mock_World env resp) ''codex'' arg =
     \<lparr>Path = ''/usr/bin/codex'', Args = ''codex'' # arg, Env = None, Dir = [],
      Stderr = None, Err = None\<rparr>"
  by (simp add: exec_CommandContext_def filepath_Base_def mock_World_def)

lemma applyOptions_append:
  "applyOptions (xs @ ys) opts =
     (case applyOptions xs opts of
        (Some err, opts') \<Rightarrow> (Some err, opts')
      | (None, opts') \<Rightarrow> applyOptions ys opts')"
  by (induction xs arbitrary: opts) (auto split: prod.splits option.splits)

lemma applyOptions_keeps:
  assumes "\<forall>opt\<in>set options. \<forall>opts. g (snd (opt opts)) = g opts"
  shows "g (snd (applyOptions options opts)) = g opts"
  using assms
proof (induction options arbitrary: opts)
  case Nil
  then show ?case by simp
next
  case (Cons opt rest)
  obtain e opts' where o: "opt opts = (e, opts')" by (cases "opt opts")
  from Cons.prems have k: "g opts' = g opts" using o by (metis list.set_intros(1) snd_conv)
  show ?case
  proof (cases e)
    case None
    with o Cons k show ?thesis by simp
  next
    case (Some err)
    with o k show ?thesis by simp
  qed
qed

lemma applyOptions_last:
  assumes "applyOptions (earlier @ opt # later) opts0 = (None, opts)"
    and "\<And>o1 o2. opt o1 = (None, o2) \<Longrightarrow> g o2 = r"
    and "\<forall>opt'\<in>set later. \<forall>opts'. g (snd (opt' opts')) = g opts'"
  shows "g opts = r"
proof -
  obtain e1 o1 where a: "applyOptions earlier opts0 = (e1, o1)"
    by (cases "applyOptions earlier opts0")
  with assms(1) have e1: "e1 = None" and b: "applyOptions (opt # later) o1 = (None, opts)"
    by (auto simp: applyOptions_append split: option.splits)
  obtain e2 o2 where c: "opt o1 = (e2, o2)" by (cases "opt o1")
  with b have e2: "e2 = None" and d: "applyOptions later o2 = (None, opts)"
    by (auto split: option.splits)
  from assms(2) c e2 have "g o2 = r" by simp
  moreover from applyOptions_keeps[OF assms(3), of o2] d have "g opts = g o2" by simp
  ultimately show ?thesis by simp
qed

lemma put_lookup:
  "(case vo of None \<Rightarrow> m | Some v \<Rightarrow> m(key \<mapsto> f v)) k =
     (if k = key then (case vo of None \<Rightarrow> m k | Some v \<Rightarrow> Some (f v)) else m k)"
  by (simp split: option.split)

lemma arguments_lookup:
  "arguments prompt opts k =
     (if k = ''prompt'' then Some (VString prompt)
      else if k = ''approval-policy'' then map_option VString (ApprovalPolicy opts)
      else if k = ''base-instructions'' then map_option VString (BaseInstructions opts)
      else if k = ''config'' then map_option VMap (Config opts)
      else if k = ''include-plan-tool'' then map_option VBool (IncludePlanTool opts)
      else if k = ''model'' then map_option VString (Model opts)
      else if k = ''profile'' then map_option VString (Profile opts)
      else if k = ''sandbox'' then map_option VString (Sandbox opts)
      else None)"
  unfolding arguments_def Let_def put_lookup
  by (simp split: option.split)

lemma arguments_Cwd: "arguments prompt (opts\<lparr>Cwd := c\<rparr>) = arguments prompt opts"
  unfolding arguments_def by simp

text \<open>The four stages of Invoke, one equation each.\<close>

lemma Invoke_option_error:
  "applyOptions options invokeOptions_zero = (Some err, opts) \<Longrightarrow>
     Invoke W codex prompt options = (Returned (Inl err), [])"
  unfolding Invoke_def by simp

lemma Invoke_command_error:
  "applyOptions options invokeOptions_zero = (None, opts) \<Longrightarrow>
   command W codex [''mcp''] = Inl err \<Longrightarrow>
     Invoke W codex prompt options = (Returned (Inl err), [])"
  unfolding Invoke_def by simp

lemma Invoke_connect_error:
  "applyOptions options invokeOptions_zero = (None, opts) \<Longrightarrow>
   command W codex [''mcp''] = Inr cmd0 \<Longrightarrow>
   cmd = (case Cwd opts of None \<Rightarrow> cmd0 | Some d \<Rightarrow> cmd0\<lparr>Dir := d\<rparr>) \<Longrightarrow>
   Connect W cmd = Some msg \<Longrightarrow>
     Invoke W codex prompt options = (Returned (Inl (External msg)), [EvConnect cmd])"
  unfolding Invoke_def by (simp add: Let_def)

lemma Invoke_connected:
  "applyOptions options invokeOptions_zero = (None, opts) \<Longrightarrow>
   command W codex [''mcp''] = Inr cmd0 \<Longrightarrow>
   cmd = (case Cwd opts of None \<Rightarrow> cmd0 | Some d \<Rightarrow> cmd0\<lparr>Dir := d\<rparr>) \<Longrightarrow>
   Connect W cmd = None \<Longrightarrow>
   params = \<lparr>Name = ''codex'', Arguments = arguments prompt opts\<rparr> \<Longrightarrow>
     Invoke W codex prompt options =
       (case CallTool W cmd params of
          Inl msg \<Rightarrow> Returned (Inl (External msg))
        | Inr res \<Rightarrow>
            (case Content res of
               [] \<Rightarrow> Panicked IndexOutOfRange
             | TextContent text # _ \<Rightarrow>
                 if IsError res then Returned (Inl (errors_New text)) else Returned (Inr text)
             | OtherContent # _ \<Rightarrow> Panicked InterfaceConversion),
        [EvConnect cmd, EvCallTool params, EvClose])"
  unfolding Invoke_def by (simp add: Let_def split: sum.split)

lemma Invoke_CallTool_event:
  assumes "EvCallTool p \<in> set (snd (Invoke W codex prompt options))"
  shows "\<exists>opts. applyOptions options invokeOptions_zero = (None, opts)
           \<and> p = \<lparr>Name = ''codex'', Arguments = arguments prompt opts\<rparr>"
proof (cases "applyOptions options invokeOptions_zero")
  case (Pair e opts)
  show ?thesis
  proof (cases e)
    case (Some err)
    with Pair assms show ?thesis by (simp add: Invoke_option_error)
  next
    case None
    note ok = Pair[unfolded None]
    show ?thesis
    proof (cases "command W codex [''mcp'']")
      case (Inl err)
      with ok assms show ?thesis by (simp add: Invoke_command_error)
    next
      case (Inr cmd0)
      define cmd where "cmd = (case Cwd opts of None \<Rightarrow> cmd0 | Some d \<Rightarrow> cmd0\<lparr>Dir := d\<rparr>)"
      show ?thesis
      proof (cases "Connect W cmd")
        case (Some msg)
        from assms show ?thesis
          unfolding Invoke_connect_error[OF ok Inr cmd_def Some] by simp
      next
        case None
        from assms show ?thesis
          unfolding Invoke_connected[OF ok Inr cmd_def None refl] using ok by simp
      qed
    qed
  qed
qed

section \<open>Option validation\<close>

text \<open>
  C1. For every string outside {untrusted, on-failure, never}, the option made by
  WithApprovalPolicy returns the error "invalid approval-policy: " followed by the string
  and leaves the structure as it was; for every string outside
  {read-only, workspace-write, danger-full-access}, the option made by WithSandbox returns
  "invalid sandbox: " followed by the string, again without a change. For a string inside
  the set the option returns no error and stores that string in its own field, all other
  fields untouched.
\<close>

theorem enum_options_validate:
  fixes opts :: "'c invokeOptions"
  shows "(v \<notin> {''untrusted'', ''on-failure'', ''never''} \<longrightarrow>
            WithApprovalPolicy v opts
              = (Some (errors_New (''invalid approval-policy: '' @ v)), opts))
       \<and> (v \<in> {''untrusted'', ''on-failure'', ''never''} \<longrightarrow>
            WithApprovalPolicy v opts = (None, opts\<lparr>ApprovalPolicy := Some v\<rparr>))
       \<and> (v \<notin> {''read-only'', ''workspace-write'', ''danger-full-access''} \<longrightarrow>
            WithSandbox v opts = (Some (errors_New (''invalid sandbox: '' @ v)), opts))
       \<and> (v \<in> {''read-only'', ''workspace-write'', ''danger-full-access''} \<longrightarrow>
            WithSandbox v opts = (None, opts\<lparr>Sandbox := Some v\<rparr>))"
  unfolding WithApprovalPolicy_def WithSandbox_def by auto

theorem enum_options_validate_witness:
  "WithApprovalPolicy ''always'' (invokeOptions_zero :: nat invokeOptions)
     = (Some (errors_New ''invalid approval-policy: always''), invokeOptions_zero)
   \<and> WithSandbox ''always'' (invokeOptions_zero :: nat invokeOptions)
     = (Some (errors_New ''invalid sandbox: always''), invokeOptions_zero)
   \<and> WithApprovalPolicy ''never'' (invokeOptions_zero :: nat invokeOptions)
     = (None, invokeOptions_zero\<lparr>ApprovalPolicy := Some ''never''\<rparr>)
   \<and> WithSandbox ''read-only'' (invokeOptions_zero :: nat invokeOptions)
     = (None, invokeOptions_zero\<lparr>Sandbox := Some ''read-only''\<rparr>)"
  using enum_options_validate [of "''always''" "invokeOptions_zero :: nat invokeOptions"]
        enum_options_validate [of "''never''" "invokeOptions_zero :: nat invokeOptions"]
        enum_options_validate [of "''read-only''" "invokeOptions_zero :: nat invokeOptions"]
  by simp

lemma supplied_field:
  assumes ok: "applyOptions options invokeOptions_zero = (None, opts)"
    and sup: "supplied with options r"
    and zero: "g invokeOptions_zero = None"
    and eff: "\<And>v o1 o2. with v o1 = (None, o2) \<Longrightarrow> g o2 = h v"
    and keeps: "\<And>opt. opt \<in> set options \<Longrightarrow> \<forall>v. opt \<noteq> with v \<Longrightarrow>
                  \<forall>opts'. g (snd (opt opts')) = g opts'"
  shows "g opts = (case r of None \<Rightarrow> None | Some v \<Rightarrow> h v)"
proof (cases r)
  case None
  with sup have "\<forall>opt\<in>set options. \<forall>v. opt \<noteq> with v"
    by (auto simp: supplied_def)
  with keeps have "\<forall>opt\<in>set options. \<forall>opts'. g (snd (opt opts')) = g opts'" by blast
  from applyOptions_keeps[OF this, of invokeOptions_zero] ok zero None
  show ?thesis by simp
next
  case (Some v)
  with sup obtain earlier later where
    d: "options = earlier @ with v # later" and n: "\<forall>v'. with v' \<notin> set later"
    by (auto simp: supplied_def)
  have k: "\<forall>opt\<in>set later. \<forall>opts'. g (snd (opt opts')) = g opts'"
  proof
    fix opt assume m: "opt \<in> set later"
    with n have "\<forall>v. opt \<noteq> with v" by blast
    moreover from m d have "opt \<in> set options" by simp
    ultimately show "\<forall>opts'. g (snd (opt opts')) = g opts'" by (rule keeps[rotated])
  qed
  from applyOptions_last[OF ok[unfolded d] eff k] Some show ?thesis by simp
qed

lemma caller_keeps:
  fixes opt :: "'c InvokeOption"
  assumes "opt \<in> caller_options"
  shows "\<forall>v. opt \<noteq> WithApprovalPolicy v \<Longrightarrow> ApprovalPolicy (snd (opt opts)) = ApprovalPolicy opts"
    and "\<forall>v. opt \<noteq> WithBaseInstructions v \<Longrightarrow> BaseInstructions (snd (opt opts)) = BaseInstructions opts"
    and "\<forall>v. opt \<noteq> WithConfig v \<Longrightarrow> Config (snd (opt opts)) = Config opts"
    and "\<forall>v. opt \<noteq> WithCwd v \<Longrightarrow> Cwd (snd (opt opts)) = Cwd opts"
    and "\<forall>v. opt \<noteq> WithIncludePlanTool v \<Longrightarrow> IncludePlanTool (snd (opt opts)) = IncludePlanTool opts"
    and "\<forall>v. opt \<noteq> WithModel v \<Longrightarrow> Model (snd (opt opts)) = Model opts"
    and "\<forall>v. opt \<noteq> WithProfile v \<Longrightarrow> Profile (snd (opt opts)) = Profile opts"
    and "\<forall>v. opt \<noteq> WithSandbox v \<Longrightarrow> Sandbox (snd (opt opts)) = Sandbox opts"
  using assms unfolding caller_options_def
  by (auto simp: WithApprovalPolicy_def WithBaseInstructions_def WithConfig_def WithCwd_def
        WithIncludePlanTool_def WithModel_def WithProfile_def WithSandbox_def)

lemma builder_effect:
  "WithApprovalPolicy v (o1 :: 'c invokeOptions) = (None, o2) \<Longrightarrow> ApprovalPolicy o2 = Some v"
  "WithBaseInstructions v (o1 :: 'c invokeOptions) = (None, o2) \<Longrightarrow> BaseInstructions o2 = Some v"
  "WithConfig c (o1 :: 'c invokeOptions) = (None, o2) \<Longrightarrow> Config o2 = c"
  "WithCwd v (o1 :: 'c invokeOptions) = (None, o2) \<Longrightarrow> Cwd o2 = Some v"
  "WithIncludePlanTool b (o1 :: 'c invokeOptions) = (None, o2) \<Longrightarrow> IncludePlanTool o2 = Some b"
  "WithModel v (o1 :: 'c invokeOptions) = (None, o2) \<Longrightarrow> Model o2 = Some v"
  "WithProfile v (o1 :: 'c invokeOptions) = (None, o2) \<Longrightarrow> Profile o2 = Some v"
  "WithSandbox v (o1 :: 'c invokeOptions) = (None, o2) \<Longrightarrow> Sandbox o2 = Some v"
  by (auto simp: WithApprovalPolicy_def WithBaseInstructions_def WithConfig_def WithCwd_def
        WithIncludePlanTool_def WithModel_def WithProfile_def WithSandbox_def
      split: if_splits)

section \<open>The outgoing argument mapping\<close>

text \<open>
  C2. Whenever a run of Invoke reaches the tool call, the tool called is "codex" and the
  argument mapping sent with it binds "prompt" to the prompt given; for each of
  approval-policy, base-instructions, include-plan-tool, model, profile and sandbox it
  binds the key to the value the caller supplied last through the builder of that field,
  and has no binding for the key when the caller's options use that builder nowhere;
  it binds "config" to the map supplied last through WithConfig, and has no binding for
  it when WithConfig is not used or the map supplied last is nil; it has no other key.
\<close>

theorem Invoke_argument_mapping:
  fixes options :: "'c InvokeOption list"
  assumes "EvCallTool p \<in> set (snd (Invoke W codex prompt options))"
    and "set options \<subseteq> caller_options"
    and "supplied WithApprovalPolicy options approvalPolicy"
    and "supplied WithBaseInstructions options baseInstructions"
    and "supplied WithConfig options config"
    and "supplied WithIncludePlanTool options includePlanTool"
    and "supplied WithModel options model"
    and "supplied WithProfile options profile"
    and "supplied WithSandbox options sandbox"
  shows "Name p = ''codex''
       \<and> Arguments p ''prompt'' = Some (VString prompt)
       \<and> Arguments p ''approval-policy'' = map_option VString approvalPolicy
       \<and> Arguments p ''base-instructions'' = map_option VString baseInstructions
       \<and> Arguments p ''config''
           = (case config of None \<Rightarrow> None | Some None \<Rightarrow> None | Some (Some c) \<Rightarrow> Some (VMap c))
       \<and> Arguments p ''include-plan-tool'' = map_option VBool includePlanTool
       \<and> Arguments p ''model'' = map_option VString model
       \<and> Arguments p ''profile'' = map_option VString profile
       \<and> Arguments p ''sandbox'' = map_option VString sandbox
       \<and> dom (Arguments p) \<subseteq> {''prompt'', ''approval-policy'', ''base-instructions'',
             ''config'', ''include-plan-tool'', ''model'', ''profile'', ''sandbox''}"
proof -
  from Invoke_CallTool_event[OF assms(1)] obtain opts where
    ok: "applyOptions options invokeOptions_zero = (None, opts)" and
    p: "p = \<lparr>Name = ''codex'', Arguments = arguments prompt opts\<rparr>"
    by blast
  have c: "opt \<in> caller_options" if "opt \<in> set options" for opt
    using that assms(2) by blast
  have ap: "ApprovalPolicy opts = (case approvalPolicy of None \<Rightarrow> None | Some v \<Rightarrow> Some v)"
    by (rule supplied_field[OF ok assms(3)])
       (simp_all add: invokeOptions_zero_def builder_effect caller_keeps c)
  have bi: "BaseInstructions opts = (case baseInstructions of None \<Rightarrow> None | Some v \<Rightarrow> Some v)"
    by (rule supplied_field[OF ok assms(4)])
       (simp_all add: invokeOptions_zero_def builder_effect caller_keeps c)
  have cf: "Config opts = (case config of None \<Rightarrow> None | Some v \<Rightarrow> v)"
    by (rule supplied_field[OF ok assms(5)])
       (simp_all add: invokeOptions_zero_def builder_effect caller_keeps c)
  have ip: "IncludePlanTool opts = (case includePlanTool of None \<Rightarrow> None | Some v \<Rightarrow> Some v)"
    by (rule supplied_field[OF ok assms(6)])
       (simp_all add: invokeOptions_zero_def builder_effect caller_keeps c)
  have md: "Model opts = (case model of None \<Rightarrow> None | Some v \<Rightarrow> Some v)"
    by (rule supplied_field[OF ok assms(7)])
       (simp_all add: invokeOptions_zero_def builder_effect caller_keeps c)
  have pr: "Profile opts = (case profile of None \<Rightarrow> None | Some v \<Rightarrow> Some v)"
    by (rule supplied_field[OF ok assms(8)])
       (simp_all add: invokeOptions_zero_def builder_effect caller_keeps c)
  have sb: "Sandbox opts = (case sandbox of None \<Rightarrow> None | Some v \<Rightarrow> Some v)"
    by (rule supplied_field[OF ok assms(9)])
       (simp_all add: invokeOptions_zero_def builder_effect caller_keeps c)
  have dom: "dom (arguments prompt opts) \<subseteq> {''prompt'', ''approval-policy'',
      ''base-instructions'', ''config'', ''include-plan-tool'', ''model'', ''profile'',
      ''sandbox''}"
  proof
    fix k assume "k \<in> dom (arguments prompt opts)"
    then have "arguments prompt opts k \<noteq> None" by (simp add: dom_def)
    then show "k \<in> {''prompt'', ''approval-policy'', ''base-instructions'', ''config'',
        ''include-plan-tool'', ''model'', ''profile'', ''sandbox''}"
      unfolding arguments_lookup[of prompt opts k] by (simp split: if_splits)
  qed
  have f: "ApprovalPolicy opts = approvalPolicy" "BaseInstructions opts = baseInstructions"
    "IncludePlanTool opts = includePlanTool" "Model opts = model" "Profile opts = profile"
    "Sandbox opts = sandbox"
    using ap bi ip md pr sb by (simp_all split: option.splits)
  have g: "map_option VMap (Config opts)
      = (case config of None \<Rightarrow> None | Some None \<Rightarrow> None | Some (Some c) \<Rightarrow> Some (VMap c))"
    using cf by (simp split: option.splits)
  show ?thesis
    using dom f g unfolding p by (simp add: arguments_lookup)
qed

lemma builders_distinct:
  "(WithApprovalPolicy ap :: 'c InvokeOption) \<noteq> WithBaseInstructions bi'"
  "(WithApprovalPolicy ap :: 'c InvokeOption) \<noteq> WithConfig cf'"
  "(WithApprovalPolicy ap :: 'c InvokeOption) \<noteq> WithCwd cw'"
  "(WithApprovalPolicy ap :: 'c InvokeOption) \<noteq> WithIncludePlanTool ip'"
  "(WithApprovalPolicy ap :: 'c InvokeOption) \<noteq> WithModel md'"
  "(WithApprovalPolicy ap :: 'c InvokeOption) \<noteq> WithProfile pr'"
  "(WithApprovalPolicy ap :: 'c InvokeOption) \<noteq> WithSandbox sb'"
  "(WithBaseInstructions bi :: 'c InvokeOption) \<noteq> WithApprovalPolicy ap'"
  "(WithBaseInstructions bi :: 'c InvokeOption) \<noteq> WithConfig cf'"
  "(WithBaseInstructions bi :: 'c InvokeOption) \<noteq> WithCwd cw'"
  "(WithBaseInstructions bi :: 'c InvokeOption) \<noteq> WithIncludePlanTool ip'"
  "(WithBaseInstructions bi :: 'c InvokeOption) \<noteq> WithModel md'"
  "(WithBaseInstructions bi :: 'c InvokeOption) \<noteq> WithProfile pr'"
  "(WithBaseInstructions bi :: 'c InvokeOption) \<noteq> WithSandbox sb'"
  "(WithConfig cf :: 'c InvokeOption) \<noteq> WithApprovalPolicy ap'"
  "(WithConfig cf :: 'c InvokeOption) \<noteq> WithBaseInstructions bi'"
  "(WithConfig cf :: 'c InvokeOption) \<noteq> WithCwd cw'"
  "(WithConfig cf :: 'c InvokeOption) \<noteq> WithIncludePlanTool ip'"
  "(WithConfig cf :: 'c InvokeOption) \<noteq> WithModel md'"
  "(WithConfig cf :: 'c InvokeOption) \<noteq> WithProfile pr'"
  "(WithConfig cf :: 'c InvokeOption) \<noteq> WithSandbox sb'"
  "(WithCwd cw :: 'c InvokeOption) \<noteq> WithApprovalPolicy ap'"
  "(WithCwd cw :: 'c InvokeOption) \<noteq> WithBaseInstructions bi'"
  "(WithCwd cw :: 'c InvokeOption) \<noteq> WithConfig cf'"
  "(WithCwd cw :: 'c InvokeOption) \<noteq> WithIncludePlanTool ip'"
  "(WithCwd cw :: 'c InvokeOption) \<noteq> WithModel md'"
  "(WithCwd cw :: 'c InvokeOption) \<noteq> WithProfile pr'"
  "(WithCwd cw :: 'c InvokeOption) \<noteq> WithSandbox sb'"
  "(WithIncludePlanTool ip :: 'c InvokeOption) \<noteq> WithApprovalPolicy ap'"
  "(WithIncludePlanTool ip :: 'c InvokeOption) \<noteq> WithBaseInstructions bi'"
  "(WithIncludePlanTool ip :: 'c InvokeOption) \<noteq> WithConfig cf'"
  "(WithIncludePlanTool ip :: 'c InvokeOption) \<noteq> WithCwd cw'"
  "(WithIncludePlanTool ip :: 'c InvokeOption) \<noteq> WithModel md'"
  "(WithIncludePlanTool ip :: 'c InvokeOption) \<noteq> WithProfile pr'"
  "(WithIncludePlanTool ip :: 'c InvokeOption) \<noteq> WithSandbox sb'"
  "(WithModel md :: 'c InvokeOption) \<noteq> WithApprovalPolicy ap'"
  "(WithModel md :: 'c InvokeOption) \<noteq> WithBaseInstructions bi'"
  "(WithModel md :: 'c InvokeOption) \<noteq> WithConfig cf'"
  "(WithModel md :: 'c InvokeOption) \<noteq> WithCwd cw'"
  "(WithModel md :: 'c InvokeOption) \<noteq> WithIncludePlanTool ip'"
  "(WithModel md :: 'c InvokeOption) \<noteq> WithProfile pr'"
  "(WithModel md :: 'c InvokeOption) \<noteq> WithSandbox sb'"
  "(WithProfile pr :: 'c InvokeOption) \<noteq> WithApprovalPolicy ap'"
  "(WithProfile pr :: 'c InvokeOption) \<noteq> WithBaseInstructions bi'"
  "(WithProfile pr :: 'c InvokeOption) \<noteq> WithConfig cf'"
  "(WithProfile pr :: 'c InvokeOption) \<noteq> WithCwd cw'"
  "(WithProfile pr :: 'c InvokeOption) \<noteq> WithIncludePlanTool ip'"
  "(WithProfile pr :: 'c InvokeOption) \<noteq> WithModel md'"
  "(WithProfile pr :: 'c InvokeOption) \<noteq> WithSandbox sb'"
  "(WithSandbox sb :: 'c InvokeOption) \<noteq> WithApprovalPolicy ap'"
  "(WithSandbox sb :: 'c InvokeOption) \<noteq> WithBaseInstructions bi'"
  "(WithSandbox sb :: 'c InvokeOption) \<noteq> WithConfig cf'"
  "(WithSandbox sb :: 'c InvokeOption) \<noteq> WithCwd cw'"
  "(WithSandbox sb :: 'c InvokeOption) \<noteq> WithIncludePlanTool ip'"
  "(WithSandbox sb :: 'c InvokeOption) \<noteq> WithModel md'"
  "(WithSandbox sb :: 'c InvokeOption) \<noteq> WithProfile pr'"
  by (auto dest!: fun_cong[where x = invokeOptions_zero]
        simp: WithApprovalPolicy_def WithBaseInstructions_def WithConfig_def WithCwd_def
          WithIncludePlanTool_def WithModel_def WithProfile_def WithSandbox_def
          invokeOptions_zero_def
        split: if_splits)

lemma suppliedI_Some:
  "options = earlier @ with v # later \<Longrightarrow> (\<forall>v'. with v' \<notin> set later) \<Longrightarrow>
     supplied with options (Some v)"
  by (auto simp: supplied_def)

lemma suppliedI_None: "(\<forall>v. with v \<notin> set options) \<Longrightarrow> supplied with options None"
  by (simp add: supplied_def)

theorem Invoke_argument_mapping_witness:
  "EvCallTool \<lparr>Name = ''codex'', Arguments = arguments ''hello''
       (\<lparr>ApprovalPolicy = Some ''never'', BaseInstructions = Some ''be brief'',
         Config = Some 5, Cwd = Some ''.'', IncludePlanTool = Some True,
         Model = Some ''o4'', Profile = None, Sandbox = Some ''read-only''\<rparr>
          :: nat invokeOptions)\<rparr>
     \<in> set (snd (Invoke
         (mock_World [] (Inr \<lparr>Content = [TextContent ''ok''], IsError = False\<rparr>)
            :: (nat, nat) World)
         (New []) ''hello''
         [WithCwd ''.'', WithModel ''o3'', WithSandbox ''read-only'',
          WithApprovalPolicy ''never'', WithBaseInstructions ''be brief'',
          WithConfig (Some 5), WithIncludePlanTool True, WithModel ''o4'']))
   \<and> (let a = arguments ''hello''
       (\<lparr>ApprovalPolicy = Some ''never'', BaseInstructions = Some ''be brief'',
         Config = Some 5, Cwd = Some ''.'', IncludePlanTool = Some True,
         Model = Some ''o4'', Profile = None, Sandbox = Some ''read-only''\<rparr>
          :: nat invokeOptions)
      in a ''prompt'' = Some (VString ''hello'')
       \<and> a ''approval-policy'' = Some (VString ''never'')
       \<and> a ''base-instructions'' = Some (VString ''be brief'')
       \<and> a ''config'' = Some (VMap 5)
       \<and> a ''include-plan-tool'' = Some (VBool True)
       \<and> a ''model'' = Some (VString ''o4'')
       \<and> a ''profile'' = None
       \<and> a ''sandbox'' = Some (VString ''read-only''))
   \<and> EvCallTool \<lparr>Name = ''codex'', Arguments = arguments ''hello''
       (invokeOptions_zero :: nat invokeOptions)\<rparr>
     \<in> set (snd (Invoke
         (mock_World [] (Inr \<lparr>Content = [TextContent ''ok''], IsError = False\<rparr>)
            :: (nat, nat) World)
         (New []) ''hello'' [WithConfig (Some 5), WithConfig None]))
   \<and> arguments ''hello'' (invokeOptions_zero :: nat invokeOptions) ''config'' = None"
proof -
  let ?opts = "\<lparr>ApprovalPolicy = Some ''never'', BaseInstructions = Some ''be brief'',
         Config = Some 5, Cwd = Some ''.'', IncludePlanTool = Some True,
         Model = Some ''o4'', Profile = None, Sandbox = Some ''read-only''\<rparr>
          :: nat invokeOptions"
  let ?W = "mock_World [] (Inr \<lparr>Content = [TextContent ''ok''], IsError = False\<rparr>)
            :: (nat, nat) World"
  let ?options = "[WithCwd ''.'', WithModel ''o3'', WithSandbox ''read-only'',
          WithApprovalPolicy ''never'', WithBaseInstructions ''be brief'',
          WithConfig (Some 5), WithIncludePlanTool True, WithModel ''o4'']
            :: nat InvokeOption list"
  let ?p = "\<lparr>Name = ''codex'', Arguments = arguments ''hello'' ?opts\<rparr>"
  have ap: "applyOptions ?options invokeOptions_zero = (None, ?opts)"
    by (simp add: WithCwd_def WithModel_def WithSandbox_def WithApprovalPolicy_def
          WithBaseInstructions_def WithConfig_def WithIncludePlanTool_def
          invokeOptions_zero_def)
  have cm: "command ?W (New []) [''mcp'']
      = Inr (exec_CommandContext ?W ''codex'' [''mcp''])"
    by (simp add: command_def New_def)
  have h: "EvCallTool ?p \<in> set (snd (Invoke ?W (New []) ''hello'' ?options))"
    unfolding Invoke_def ap cm by (simp add: mock_World_def Let_def)
  have c: "set ?options \<subseteq> caller_options"
    by (simp add: caller_options_def)
  have s1: "supplied WithApprovalPolicy ?options (Some ''never'')"
    by (rule suppliedI_Some[where earlier = "[WithCwd ''.'', WithModel ''o3'',
          WithSandbox ''read-only'']"], simp, simp add: builders_distinct)
  have s2: "supplied WithBaseInstructions ?options (Some ''be brief'')"
    by (rule suppliedI_Some[where earlier = "[WithCwd ''.'', WithModel ''o3'',
          WithSandbox ''read-only'', WithApprovalPolicy ''never'']"], simp, simp add: builders_distinct)
  have s3: "supplied WithConfig ?options (Some (Some 5))"
    by (rule suppliedI_Some[where earlier = "[WithCwd ''.'', WithModel ''o3'',
          WithSandbox ''read-only'', WithApprovalPolicy ''never'',
          WithBaseInstructions ''be brief'']"], simp, simp add: builders_distinct)
  have s4: "supplied WithIncludePlanTool ?options (Some True)"
    by (rule suppliedI_Some[where earlier = "[WithCwd ''.'', WithModel ''o3'',
          WithSandbox ''read-only'', WithApprovalPolicy ''never'',
          WithBaseInstructions ''be brief'', WithConfig (Some 5)]"], simp, simp add: builders_distinct)
  have s5: "supplied WithModel ?options (Some ''o4'')"
    by (rule suppliedI_Some[where earlier = "[WithCwd ''.'', WithModel ''o3'',
          WithSandbox ''read-only'', WithApprovalPolicy ''never'',
          WithBaseInstructions ''be brief'', WithConfig (Some 5),
          WithIncludePlanTool True]"], simp, simp add: builders_distinct)
  have s6: "supplied WithProfile ?options None"
    by (rule suppliedI_None) (simp add: builders_distinct)
  have s7: "supplied WithSandbox ?options (Some ''read-only'')"
    by (rule suppliedI_Some[where earlier = "[WithCwd ''.'', WithModel ''o3'']"], simp, simp add: builders_distinct)
  from Invoke_argument_mapping[OF h c s1 s2 s3 s4 s5 s6 s7] h
  have one: "EvCallTool ?p \<in> set (snd (Invoke ?W (New []) ''hello'' ?options))
     \<and> (let a = arguments ''hello'' ?opts
        in a ''prompt'' = Some (VString ''hello'')
         \<and> a ''approval-policy'' = Some (VString ''never'')
         \<and> a ''base-instructions'' = Some (VString ''be brief'')
         \<and> a ''config'' = Some (VMap 5)
         \<and> a ''include-plan-tool'' = Some (VBool True)
         \<and> a ''model'' = Some (VString ''o4'')
         \<and> a ''profile'' = None
         \<and> a ''sandbox'' = Some (VString ''read-only''))"
    by (simp add: Let_def)
  let ?nil = "[WithConfig (Some 5), WithConfig None] :: nat InvokeOption list"
  let ?q = "\<lparr>Name = ''codex'',
             Arguments = arguments ''hello'' (invokeOptions_zero :: nat invokeOptions)\<rparr>"
  have ap': "applyOptions ?nil invokeOptions_zero = (None, invokeOptions_zero)"
    by (simp add: WithConfig_def invokeOptions_zero_def)
  have h': "EvCallTool ?q \<in> set (snd (Invoke ?W (New []) ''hello'' ?nil))"
    unfolding Invoke_def ap' cm by (simp add: mock_World_def Let_def)
  have c': "set ?nil \<subseteq> caller_options"
    by (simp add: caller_options_def)
  have n: "supplied WithApprovalPolicy ?nil None" "supplied WithBaseInstructions ?nil None"
    "supplied WithIncludePlanTool ?nil None" "supplied WithModel ?nil None"
    "supplied WithProfile ?nil None" "supplied WithSandbox ?nil None"
    by (rule suppliedI_None, simp add: builders_distinct)+
  have n3: "supplied WithConfig ?nil (Some None)"
    by (rule suppliedI_Some[where earlier = "[WithConfig (Some 5)]"], simp, simp)
  from Invoke_argument_mapping[OF h' c' n(1,2) n3 n(3,4,5,6)] h'
  have two: "EvCallTool ?q \<in> set (snd (Invoke ?W (New []) ''hello'' ?nil))
     \<and> arguments ''hello'' (invokeOptions_zero :: nat invokeOptions) ''config'' = None"
    by simp
  from one two show ?thesis by blast
qed

section \<open>Reading the response\<close>

text \<open>
  C3. When the tool call hands back a response whose first content entry is a text, Invoke
  returns an error with exactly that text as its message if the response carries the error
  flag, and returns that text with no error if it does not. The entries after the first
  play no part: the result is the same whatever they are.
\<close>

theorem Invoke_reads_first_content:
  assumes "applyOptions options invokeOptions_zero = (None, opts)"
    and "command W codex [''mcp''] = Inr cmd0"
    and "cmd = (case Cwd opts of None \<Rightarrow> cmd0 | Some d \<Rightarrow> cmd0\<lparr>Dir := d\<rparr>)"
    and "Connect W cmd = None"
    and "CallTool W cmd \<lparr>Name = ''codex'', Arguments = arguments prompt opts\<rparr> = Inr res"
    and "Content res = TextContent text # rest"
  shows "fst (Invoke W codex prompt options)
           = Returned (if IsError res then Inl (errors_New text) else Inr text)
       \<and> (IsError res \<longrightarrow>
            (\<exists>err. fst (Invoke W codex prompt options) = Returned (Inl err)
               \<and> Error err = text))"
  unfolding Invoke_connected[OF assms(1,2,3,4) refl] using assms(5,6) by simp

theorem Invoke_reads_first_content_witness:
  "fst (Invoke
      (mock_World [] (Inr \<lparr>Content = [TextContent ''boom'', OtherContent,
                                        TextContent ''later''], IsError = True\<rparr>)
         :: (nat, nat) World)
      (New []) ''hello'' [WithModel ''o3''])
     = Returned (Inl (errors_New ''boom''))
   \<and> fst (Invoke
      (mock_World [] (Inr \<lparr>Content = [TextContent ''ok'', TextContent ''more''],
                             IsError = False\<rparr>)
         :: (nat, nat) World)
      (New []) ''hello'' [WithModel ''o3''])
     = Returned (Inr ''ok'')"
proof -
  let ?opts = "invokeOptions_zero\<lparr>Model := Some ''o3''\<rparr> :: nat invokeOptions"
  let ?boom = "\<lparr>Content = [TextContent ''boom'', OtherContent, TextContent ''later''],
                 IsError = True\<rparr>"
  let ?ok = "\<lparr>Content = [TextContent ''ok'', TextContent ''more''], IsError = False\<rparr>"
  let ?cmd = "\<lparr>Path = ''/usr/bin/codex'', Args = [''codex'', ''mcp''], Env = None, Dir = [],
                 Stderr = None, Err = None\<rparr> :: nat Cmd"
  have ap: "applyOptions [WithModel ''o3''] invokeOptions_zero = (None, ?opts)"
    by (simp add: WithModel_def)
  have cm: "command (mock_World [] r :: (nat, nat) World) (New []) [''mcp''] = Inr ?cmd" for r
    by (simp add: command_def New_def mock_CommandContext)
  have cw: "?cmd = (case Cwd ?opts of None \<Rightarrow> ?cmd | Some d \<Rightarrow> ?cmd\<lparr>Dir := d\<rparr>)"
    by (simp add: invokeOptions_zero_def)
  have cn: "Connect (mock_World [] r :: (nat, nat) World) ?cmd = None" for r
    by (simp add: mock_World_def)
  have ct: "CallTool (mock_World [] r :: (nat, nat) World) ?cmd
              \<lparr>Name = ''codex'', Arguments = arguments ''hello'' ?opts\<rparr> = r" for r
    by (simp add: mock_World_def)
  show ?thesis
    using Invoke_reads_first_content[OF ap cm cw cn ct, of ?boom "''boom''"
            "[OtherContent, TextContent ''later'']"]
          Invoke_reads_first_content[OF ap cm cw cn ct, of ?ok "''ok''"
            "[TextContent ''more'']"]
    by simp
qed

text \<open>
  C8. Nothing guards the read of the first content entry. Invoke panics on the index
  exactly when its run reaches the tool call and the response that comes back has no
  content entry at all; no error value is returned in that case.
\<close>

theorem Invoke_empty_content_panics:
  "fst (Invoke W codex prompt options) = Panicked IndexOutOfRange \<longleftrightarrow>
     (\<exists>opts cmd0 cmd res.
        applyOptions options invokeOptions_zero = (None, opts)
      \<and> command W codex [''mcp''] = Inr cmd0
      \<and> cmd = (case Cwd opts of None \<Rightarrow> cmd0 | Some d \<Rightarrow> cmd0\<lparr>Dir := d\<rparr>)
      \<and> Connect W cmd = None
      \<and> CallTool W cmd \<lparr>Name = ''codex'', Arguments = arguments prompt opts\<rparr> = Inr res
      \<and> Content res = [])"
  (is "?L \<longleftrightarrow> ?R")
proof
  assume R: ?R
  then obtain opts cmd0 cmd res where
    h: "applyOptions options invokeOptions_zero = (None, opts)"
       "command W codex [''mcp''] = Inr cmd0"
       "cmd = (case Cwd opts of None \<Rightarrow> cmd0 | Some d \<Rightarrow> cmd0\<lparr>Dir := d\<rparr>)"
       "Connect W cmd = None" and
    r: "CallTool W cmd \<lparr>Name = ''codex'', Arguments = arguments prompt opts\<rparr> = Inr res"
       "Content res = []"
    by blast
  show ?L unfolding Invoke_connected[OF h refl] using r by simp
next
  assume L: ?L
  obtain e opts where ap: "applyOptions options invokeOptions_zero = (e, opts)"
    by (cases "applyOptions options invokeOptions_zero")
  show ?R
  proof (cases e)
    case (Some err)
    with ap L show ?thesis by (simp add: Invoke_option_error)
  next
    case None
    note ok = ap[unfolded None]
    show ?thesis
    proof (cases "command W codex [''mcp'']")
      case (Inl err)
      with ok L show ?thesis by (simp add: Invoke_command_error)
    next
      case (Inr cmd0)
      define cmd where "cmd = (case Cwd opts of None \<Rightarrow> cmd0 | Some d \<Rightarrow> cmd0\<lparr>Dir := d\<rparr>)"
      show ?thesis
      proof (cases "Connect W cmd")
        case (Some msg)
        from L show ?thesis
          unfolding Invoke_connect_error[OF ok Inr cmd_def Some] by simp
      next
        case None
        from L have "\<exists>res. CallTool W cmd \<lparr>Name = ''codex'', Arguments = arguments prompt opts\<rparr>
                        = Inr res \<and> Content res = []"
          unfolding Invoke_connected[OF ok Inr cmd_def None refl]
          by (simp split: sum.splits list.splits Content.splits if_splits)
        with ok Inr cmd_def None show ?thesis by blast
      qed
    qed
  qed
qed

theorem Invoke_empty_content_panics_witness:
  "fst (Invoke (mock_World [] (Inr \<lparr>Content = [], IsError = False\<rparr>) :: (nat, nat) World)
          (New []) ''hello'' [])
     = Panicked IndexOutOfRange"
proof -
  let ?W = "mock_World [] (Inr \<lparr>Content = [], IsError = False\<rparr>) :: (nat, nat) World"
  let ?cmd = "\<lparr>Path = ''/usr/bin/codex'', Args = [''codex'', ''mcp''], Env = None, Dir = [],
                 Stderr = None, Err = None\<rparr> :: nat Cmd"
  have "applyOptions [] invokeOptions_zero = (None, invokeOptions_zero :: nat invokeOptions)
      \<and> command ?W (New []) [''mcp''] = Inr ?cmd
      \<and> ?cmd = (case Cwd (invokeOptions_zero :: nat invokeOptions) of
                   None \<Rightarrow> ?cmd | Some d \<Rightarrow> ?cmd\<lparr>Dir := d\<rparr>)
      \<and> Connect ?W ?cmd = None
      \<and> CallTool ?W ?cmd \<lparr>Name = ''codex'',
            Arguments = arguments ''hello'' (invokeOptions_zero :: nat invokeOptions)\<rparr>
          = Inr \<lparr>Content = [], IsError = False\<rparr>
      \<and> Content \<lparr>Content = [], IsError = False\<rparr> = []"
    by (simp add: command_def New_def mock_CommandContext invokeOptions_zero_def)
       (simp add: mock_World_def)
  then show ?thesis
    unfolding Invoke_empty_content_panics by blast
qed

section \<open>Order of the steps of Invoke\<close>

text \<open>
  C4. Invoke applies its options in the order given: each option acts on the structure
  that the options before it have built. When the options before some option have all
  succeeded and that option, run on the structure they built, returns an error, Invoke
  returns exactly that error. The result is the same for every list of options
  that follows, for every client and for every state of the outside world, and the run
  makes no call at all: no command is built for "mcp", no process is started.
\<close>

theorem Invoke_aborts_at_first_invalid_option:
  assumes "applyOptions before invokeOptions_zero = (None, opts)"
    and "opt opts = (Some err, opts')"
  shows "Invoke W codex prompt (before @ opt # after) = (Returned (Inl err), [])
       \<and> applyOptions (before @ later) invokeOptions_zero = applyOptions later opts"
proof -
  have "applyOptions (before @ opt # after) invokeOptions_zero = (Some err, opts')"
    using assms by (simp add: applyOptions_append)
  then have "Invoke W codex prompt (before @ opt # after) = (Returned (Inl err), [])"
    by (rule Invoke_option_error)
  moreover have "applyOptions (before @ later) invokeOptions_zero = applyOptions later opts"
    using assms(1) by (simp add: applyOptions_append)
  ultimately show ?thesis by blast
qed

theorem Invoke_aborts_at_first_invalid_option_witness:
  "Invoke (mock_World [] (Inr \<lparr>Content = [TextContent ''ok''], IsError = False\<rparr>)
             :: (nat, nat) World)
      (New [WithLogger (Some 0) ''verbose'']) ''hello''
      ([WithModel ''o3''] @ WithApprovalPolicy ''always'' # [WithSandbox ''nowhere''])
     = (Returned (Inl (errors_New ''invalid approval-policy: always'')), [])"
proof -
  have ap: "applyOptions [WithModel ''o3''] invokeOptions_zero
      = (None, invokeOptions_zero\<lparr>Model := Some ''o3''\<rparr> :: nat invokeOptions)"
    by (simp add: WithModel_def)
  have bad: "WithApprovalPolicy ''always'' (invokeOptions_zero\<lparr>Model := Some ''o3''\<rparr> :: nat invokeOptions)
      = (Some (errors_New ''invalid approval-policy: always''),
         invokeOptions_zero\<lparr>Model := Some ''o3''\<rparr>)"
    by (simp add: WithApprovalPolicy_def)
  from Invoke_aborts_at_first_invalid_option
         [of "[WithModel ''o3'']" _ "WithApprovalPolicy ''always''", OF ap bad]
  show ?thesis by blast
qed

text \<open>
  C5. When the options of a call validate and the command for "mcp" is built, the
  process that Invoke connects to is that command with its working directory set to the
  cwd option if one was given, and with the working directory at its default, the empty
  string, if none was. The argument mapping of the tool call has no key "cwd" and is the
  same mapping whatever the cwd option is.
\<close>

theorem Invoke_cwd_sets_Dir:
  assumes "applyOptions options invokeOptions_zero = (None, opts)"
    and "command W codex [''mcp''] = Inr cmd0"
  shows "\<exists>cmd rest. snd (Invoke W codex prompt options) = EvConnect cmd # rest
           \<and> Dir cmd0 = []
           \<and> cmd = (case Cwd opts of None \<Rightarrow> cmd0 | Some d \<Rightarrow> cmd0\<lparr>Dir := d\<rparr>)
           \<and> Dir cmd = (case Cwd opts of None \<Rightarrow> [] | Some d \<Rightarrow> d)
           \<and> (\<forall>p. EvCallTool p \<in> set rest \<longrightarrow>
                  Arguments p ''cwd'' = None
                \<and> (\<forall>c. Arguments p = arguments prompt (opts\<lparr>Cwd := c\<rparr>)))"
proof -
  define cmd where "cmd = (case Cwd opts of None \<Rightarrow> cmd0 | Some d \<Rightarrow> cmd0\<lparr>Dir := d\<rparr>)"
  have d0: "Dir cmd0 = []"
    using assms(2) by (auto simp: command_def exec_CommandContext_fields Let_def split: if_splits)
  then have d: "Dir cmd = (case Cwd opts of None \<Rightarrow> [] | Some d \<Rightarrow> d)"
    by (simp add: cmd_def split: option.split)
  show ?thesis
  proof (cases "Connect W cmd")
    case (Some msg)
    show ?thesis
      unfolding Invoke_connect_error[OF assms cmd_def Some] using d0 d cmd_def by simp
  next
    case None
    show ?thesis
      unfolding Invoke_connected[OF assms cmd_def None refl] using d0 d cmd_def
      by (simp add: arguments_Cwd arguments_lookup)
  qed
qed

theorem Invoke_cwd_sets_Dir_witness:
  "(\<exists>cmd p.
      snd (Invoke (mock_World [] (Inr \<lparr>Content = [TextContent ''ok''], IsError = False\<rparr>)
                     :: (nat, nat) World)
             (New []) ''hello'' [WithCwd ''/tmp/work'', WithModel ''o3''])
        = [EvConnect cmd, EvCallTool p, EvClose]
    \<and> Dir cmd = ''/tmp/work''
    \<and> Arguments p ''cwd'' = None)
 \<and> (\<exists>cmd rest.
      snd (Invoke (mock_World [] (Inr \<lparr>Content = [TextContent ''ok''], IsError = False\<rparr>)
                     :: (nat, nat) World)
             (New []) ''hello'' [WithModel ''o3''])
        = EvConnect cmd # rest
    \<and> Dir cmd = [])"
proof -
  let ?W = "mock_World [] (Inr \<lparr>Content = [TextContent ''ok''], IsError = False\<rparr>)
              :: (nat, nat) World"
  let ?opts1 = "invokeOptions_zero\<lparr>Cwd := Some ''/tmp/work'', Model := Some ''o3''\<rparr>
                 :: nat invokeOptions"
  let ?cmd0 = "\<lparr>Path = ''/usr/bin/codex'', Args = [''codex'', ''mcp''], Env = None, Dir = [],
                 Stderr = None, Err = None\<rparr> :: nat Cmd"
  let ?p = "\<lparr>Name = ''codex'', Arguments = arguments ''hello'' ?opts1\<rparr>"
  have ap1: "applyOptions [WithCwd ''/tmp/work'', WithModel ''o3''] invokeOptions_zero
      = (None, ?opts1)"
    by (simp add: WithCwd_def WithModel_def)
  have ap2: "applyOptions [WithModel ''o3''] invokeOptions_zero
      = (None, invokeOptions_zero\<lparr>Model := Some ''o3''\<rparr> :: nat invokeOptions)"
    by (simp add: WithModel_def)
  have cm: "command ?W (New []) [''mcp''] = Inr ?cmd0"
    by (simp add: command_def New_def mock_CommandContext)
  have cn: "Connect ?W c = None" for c
    by (simp add: mock_World_def)
  have tr: "snd (Invoke ?W (New []) ''hello'' [WithCwd ''/tmp/work'', WithModel ''o3''])
      = [EvConnect (?cmd0\<lparr>Dir := ''/tmp/work''\<rparr>), EvCallTool ?p, EvClose]"
    unfolding Invoke_connected[OF ap1 cm refl cn refl] by simp
  from Invoke_cwd_sets_Dir[OF ap1 cm, of "''hello''"] obtain cmd1 rest1 where
    e1: "snd (Invoke ?W (New []) ''hello'' [WithCwd ''/tmp/work'', WithModel ''o3''])
           = EvConnect cmd1 # rest1"
    and d1: "Dir cmd1 = (case Cwd ?opts1 of None \<Rightarrow> [] | Some d \<Rightarrow> d)"
    and a1: "\<forall>p. EvCallTool p \<in> set rest1 \<longrightarrow> Arguments p ''cwd'' = None"
    by blast
  from d1 have d1': "Dir cmd1 = ''/tmp/work''" by simp
  from e1 tr have r1: "rest1 = [EvCallTool ?p, EvClose]" by simp
  with a1 have c1: "Arguments ?p ''cwd'' = None" by simp
  from e1 r1 d1' c1 have one: "\<exists>cmd p.
      snd (Invoke ?W (New []) ''hello'' [WithCwd ''/tmp/work'', WithModel ''o3''])
        = [EvConnect cmd, EvCallTool p, EvClose]
    \<and> Dir cmd = ''/tmp/work''
    \<and> Arguments p ''cwd'' = None"
    by blast
  from Invoke_cwd_sets_Dir[OF ap2 cm, of "''hello''"] obtain cmd2 rest2 where
    e2: "snd (Invoke ?W (New []) ''hello'' [WithModel ''o3'']) = EvConnect cmd2 # rest2"
    and d2: "Dir cmd2 = (case Cwd (invokeOptions_zero\<lparr>Model := Some ''o3''\<rparr>
                 :: nat invokeOptions) of None \<Rightarrow> [] | Some d \<Rightarrow> d)"
    by blast
  from d2 have d2': "Dir cmd2 = []" by (simp add: invokeOptions_zero_def)
  from e2 d2' have two: "\<exists>cmd rest.
      snd (Invoke ?W (New []) ''hello'' [WithModel ''o3'']) = EvConnect cmd # rest
    \<and> Dir cmd = []"
    by blast
  from one two show ?thesis by blast
qed

section \<open>Logging configuration\<close>

text \<open>
  C6, as the code has it. For a client with a log sink and a log level outside
  {error, warn, info, debug, trace, off}, building a command fails with the error
  "invalid log level" and hands no command back. Login returns that error, having done
  nothing but take and release the lock. Invoke fails on every call without a single call
  on the outside world: with the error "invalid log level" when its options validate,
  and with the error of the first option that fails when they do not. Neither starts a
  process.
\<close>

theorem invalid_log_level_rejected:
  assumes "logWriter codex = Some w"
    and "logLevel codex \<notin> {''error'', ''warn'', ''info'', ''debug'', ''trace'', ''off''}"
  shows "command W codex arg = Inl (errors_New ''invalid log level'')
       \<and> Login W codex apiKey = (Some (errors_New ''invalid log level''), [Lock, Unlock])
       \<and> Invoke W codex prompt options
           = (Returned (Inl (case fst (applyOptions options invokeOptions_zero) of
                               None \<Rightarrow> errors_New ''invalid log level''
                             | Some err \<Rightarrow> err)), [])"
proof -
  have c: "command W codex arg = Inl (errors_New ''invalid log level'')" for arg
    using assms by (simp add: command_def Let_def)
  have l: "Login W codex apiKey = (Some (errors_New ''invalid log level''), [Lock, Unlock])"
    by (simp add: Login_def c)
  obtain e opts where ap: "applyOptions options invokeOptions_zero = (e, opts)"
    by (cases "applyOptions options invokeOptions_zero")
  have i: "Invoke W codex prompt options
           = (Returned (Inl (case fst (applyOptions options invokeOptions_zero) of
                               None \<Rightarrow> errors_New ''invalid log level''
                             | Some err \<Rightarrow> err)), [])"
  proof (cases e)
    case (Some err)
    with ap show ?thesis by (simp add: Invoke_option_error)
  next
    case None
    with ap show ?thesis by (simp add: Invoke_command_error[OF _ c])
  qed
  from c l i show ?thesis by blast
qed

theorem invalid_log_level_rejected_witness:
  "Login (mock_World [''HOME=/root''] (Inr \<lparr>Content = [TextContent ''ok''], IsError = False\<rparr>)
            :: (nat, nat) World)
      (New [WithLogger (Some 0) ''verbose'']) ''sk-key''
     = (Some (errors_New ''invalid log level''), [Lock, Unlock])
   \<and> Invoke (mock_World [''HOME=/root''] (Inr \<lparr>Content = [TextContent ''ok''], IsError = False\<rparr>)
            :: (nat, nat) World)
      (New [WithLogger (Some 0) ''verbose'']) ''hello'' [WithModel ''o3'']
     = (Returned (Inl (errors_New ''invalid log level'')), [])"
proof -
  let ?codex = "New [WithLogger (Some 0) ''verbose''] :: nat Codex"
  have w: "logWriter ?codex = Some 0"
    by (simp add: New_def WithLogger_def SetLogger_def)
  have l: "logLevel ?codex \<notin> {''error'', ''warn'', ''info'', ''debug'', ''trace'', ''off''}"
    by (simp add: New_def WithLogger_def SetLogger_def)
  have ap: "fst (applyOptions [WithModel ''o3''] (invokeOptions_zero :: nat invokeOptions)) = None"
    by (simp add: WithModel_def)
  let ?W = "mock_World [''HOME=/root''] (Inr \<lparr>Content = [TextContent ''ok''], IsError = False\<rparr>)
            :: (nat, nat) World"
  note t = invalid_log_level_rejected[OF w l, of ?W "[]" "''sk-key''" "''hello''"
             "[WithModel ''o3'']"]
  from t have one: "Login ?W ?codex ''sk-key''
      = (Some (errors_New ''invalid log level''), [Lock, Unlock])"
    by blast
  from t have "Invoke ?W ?codex ''hello'' [WithModel ''o3'']
      = (Returned (Inl (case fst (applyOptions [WithModel ''o3'']
                                    (invokeOptions_zero :: nat invokeOptions)) of
                          None \<Rightarrow> errors_New ''invalid log level''
                        | Some err \<Rightarrow> err)), [])"
    by blast
  then have two: "Invoke ?W ?codex ''hello'' [WithModel ''o3'']
      = (Returned (Inl (errors_New ''invalid log level'')), [])"
    unfolding ap by simp
  from one two show ?thesis by blast
qed

text \<open>
  C6 as it is worded, that Invoke always fails with "invalid log level" on such a client,
  does not hold: the options are applied before the command is built, so a call with an
  invalid approval policy returns the error of that option.
\<close>

theorem invalid_log_level_Invoke_counterexample:
  "logWriter (New [WithLogger (Some 0) ''verbose''] :: nat Codex) = Some 0
   \<and> logLevel (New [WithLogger (Some 0) ''verbose''] :: nat Codex)
       \<notin> {''error'', ''warn'', ''info'', ''debug'', ''trace'', ''off''}
   \<and> Invoke (mock_World [''HOME=/root''] (Inr \<lparr>Content = [TextContent ''ok''], IsError = False\<rparr>)
            :: (nat, nat) World)
      (New [WithLogger (Some 0) ''verbose'']) ''hello'' [WithApprovalPolicy ''always'']
     = (Returned (Inl (errors_New ''invalid approval-policy: always'')), [])
   \<and> Error (errors_New ''invalid approval-policy: always'') \<noteq> ''invalid log level''"
proof -
  have "applyOptions [WithApprovalPolicy ''always''] (invokeOptions_zero :: nat invokeOptions)
      = (Some (errors_New ''invalid approval-policy: always''), invokeOptions_zero)"
    by (simp add: WithApprovalPolicy_def)
  from Invoke_option_error[OF this] show ?thesis
    by (simp add: New_def WithLogger_def SetLogger_def)
qed

text \<open>
  C7. For a client with a log sink and a log level L in
  {error, warn, info, debug, trace, off}, building a command succeeds; the command's
  standard error stream is the sink and its environment is the single entry
  "RUST_LOG=codex_core=L,codex_tui=L" followed by the inherited environment, entry for
  entry, so that every inherited variable is still in it. The process that Login runs,
  and the one Invoke connects to once its options validate, has that stream and that
  environment.
\<close>

theorem valid_log_level_wires_logging:
  fixes W :: "('w, 'c) World" and codex :: "'w Codex"
  assumes "logWriter codex = Some w"
    and "logLevel codex \<in> {''error'', ''warn'', ''info'', ''debug'', ''trace'', ''off''}"
    and "rust_log = ''RUST_LOG=codex_core='' @ logLevel codex
                      @ '',codex_tui='' @ logLevel codex"
  shows "(\<exists>cmd. command W codex arg = Inr cmd
           \<and> Stderr cmd = Some w
           \<and> Env cmd = Some (rust_log # Environ W)
           \<and> set (Environ W) \<subseteq> set (the (Env cmd))
           \<and> Args cmd = executablePath codex # arg
           \<and> Dir cmd = [])
       \<and> (\<exists>cmd. snd (Login W codex apiKey) = [Lock, EvRun cmd, Unlock]
           \<and> Stderr cmd = Some w
           \<and> Env cmd = Some (rust_log # Environ W))
       \<and> (fst (applyOptions options invokeOptions_zero) = None \<longrightarrow>
            (\<exists>cmd rest. snd (Invoke W codex prompt options) = EvConnect cmd # rest
               \<and> Stderr cmd = Some w
               \<and> Env cmd = Some (rust_log # Environ W)))"
proof -
  define logged :: "string list \<Rightarrow> 'w Cmd" where
    "logged arg = (exec_CommandContext W (executablePath codex) arg)
       \<lparr>Stderr := Some w, Env := Some (rust_log # Environ W)\<rparr>" for arg
  have lv: "logLevel codex = ''error'' \<or> logLevel codex = ''warn''
            \<or> logLevel codex = ''info'' \<or> logLevel codex = ''debug''
            \<or> logLevel codex = ''trace'' \<or> logLevel codex = ''off''"
    using assms(2) by simp
  have c: "command W codex arg = Inr (logged arg)" for arg
    unfolding command_def Let_def logged_def assms(3) using assms(1) lv by simp
  have f: "Stderr (logged arg) = Some w \<and> Env (logged arg) = Some (rust_log # Environ W)
         \<and> Args (logged arg) = executablePath codex # arg \<and> Dir (logged arg) = []" for arg
    by (simp add: logged_def exec_CommandContext_fields)
  have one: "\<exists>cmd. command W codex arg = Inr cmd
           \<and> Stderr cmd = Some w
           \<and> Env cmd = Some (rust_log # Environ W)
           \<and> set (Environ W) \<subseteq> set (the (Env cmd))
           \<and> Args cmd = executablePath codex # arg
           \<and> Dir cmd = []"
    using c[of arg] f[of arg] by auto
  have "snd (Login W codex apiKey)
      = [Lock, EvRun (logged [''login'', ''--api-key'', apiKey]), Unlock]"
    unfolding Login_def c by (simp split: option.split)
  with f have two: "\<exists>cmd. snd (Login W codex apiKey) = [Lock, EvRun cmd, Unlock]
           \<and> Stderr cmd = Some w
           \<and> Env cmd = Some (rust_log # Environ W)"
    by blast
  have three: "\<exists>cmd rest. snd (Invoke W codex prompt options) = EvConnect cmd # rest
               \<and> Stderr cmd = Some w
               \<and> Env cmd = Some (rust_log # Environ W)"
    if "fst (applyOptions options invokeOptions_zero) = None"
  proof -
    from that obtain opts where ap: "applyOptions options invokeOptions_zero = (None, opts)"
      by (cases "applyOptions options invokeOptions_zero") simp
    define cmd where
      "cmd = (case Cwd opts of None \<Rightarrow> logged [''mcp''] | Some d \<Rightarrow> (logged [''mcp''])\<lparr>Dir := d\<rparr>)"
    have e: "Stderr cmd = Some w \<and> Env cmd = Some (rust_log # Environ W)"
      using f[of "[''mcp'']"] by (simp add: cmd_def split: option.split)
    show ?thesis
    proof (cases "Connect W cmd")
      case (Some msg)
      show ?thesis unfolding Invoke_connect_error[OF ap c cmd_def Some] using e by simp
    next
      case None
      show ?thesis unfolding Invoke_connected[OF ap c cmd_def None refl] using e by simp
    qed
  qed
  from one two three show ?thesis by blast
qed

theorem valid_log_level_wires_logging_witness:
  "(\<exists>cmd.
      command (mock_World [''HOME=/root'', ''PATH=/bin'']
                (Inr \<lparr>Content = [TextContent ''ok''], IsError = False\<rparr>) :: (nat, nat) World)
        (New [WithLogger (Some 7) ''debug'']) [''mcp'']
        = Inr cmd
    \<and> Stderr cmd = Some 7
    \<and> Env cmd = Some [''RUST_LOG=codex_core=debug,codex_tui=debug'',
                        ''HOME=/root'', ''PATH=/bin''])
   \<and> (\<exists>cmd rest.
        snd (Invoke (mock_World [''HOME=/root'', ''PATH=/bin'']
                (Inr \<lparr>Content = [TextContent ''ok''], IsError = False\<rparr>) :: (nat, nat) World)
              (New [WithLogger (Some 7) ''debug'']) ''hello'' [WithModel ''o3''])
          = EvConnect cmd # rest
      \<and> Stderr cmd = Some 7
      \<and> Env cmd = Some [''RUST_LOG=codex_core=debug,codex_tui=debug'',
                          ''HOME=/root'', ''PATH=/bin''])"
proof -
  let ?codex = "New [WithLogger (Some 7) ''debug''] :: nat Codex"
  let ?W = "mock_World [''HOME=/root'', ''PATH=/bin'']
              (Inr \<lparr>Content = [TextContent ''ok''], IsError = False\<rparr>) :: (nat, nat) World"
  let ?env = "[''RUST_LOG=codex_core=debug,codex_tui=debug'', ''HOME=/root'', ''PATH=/bin'']"
  have w: "logWriter ?codex = Some 7"
    by (simp add: New_def WithLogger_def SetLogger_def)
  have l: "logLevel ?codex \<in> {''error'', ''warn'', ''info'', ''debug'', ''trace'', ''off''}"
    by (simp add: New_def WithLogger_def SetLogger_def)
  have r: "''RUST_LOG=codex_core=debug,codex_tui=debug''
      = ''RUST_LOG=codex_core='' @ logLevel ?codex @ '',codex_tui='' @ logLevel ?codex"
    by (simp add: New_def WithLogger_def SetLogger_def)
  have e: "Environ ?W = [''HOME=/root'', ''PATH=/bin'']"
    by (simp add: mock_World_def)
  have ap: "fst (applyOptions [WithModel ''o3''] (invokeOptions_zero :: nat invokeOptions)) = None"
    by (simp add: WithModel_def)
  note t = valid_log_level_wires_logging[OF w l r, of ?W "[''mcp'']" "[]" "[WithModel ''o3'']"
             "''hello''", unfolded e]
  from t have one: "\<exists>cmd. command ?W ?codex [''mcp''] = Inr cmd
      \<and> Stderr cmd = Some 7 \<and> Env cmd = Some ?env"
    by blast
  from t ap have two: "\<exists>cmd rest.
        snd (Invoke ?W ?codex ''hello'' [WithModel ''o3'']) = EvConnect cmd # rest
      \<and> Stderr cmd = Some 7 \<and> Env cmd = Some ?env"
    by blast
  from one two show ?thesis by blast
qed

text \<open>
  C10. For a client without a log sink the log level is never looked at: for every log
  level, building a command succeeds and leaves the command's environment and standard
  error stream unset. Login then runs the login command and returns what running it
  returns, and Invoke, once its options validate, goes on to connect to the process.
\<close>

theorem no_log_sink_skips_validation:
  fixes W :: "('w, 'c) World" and codex :: "'w Codex"
  assumes "logWriter codex = None"
  shows "command W codex arg = Inr (exec_CommandContext W (executablePath codex) arg)
       \<and> Env (exec_CommandContext W (executablePath codex) arg :: 'w Cmd) = None
       \<and> Stderr (exec_CommandContext W (executablePath codex) arg :: 'w Cmd) = None
       \<and> Login W codex apiKey =
           (map_option External
              (Run W (exec_CommandContext W (executablePath codex)
                        [''login'', ''--api-key'', apiKey])),
            [Lock,
             EvRun (exec_CommandContext W (executablePath codex)
                      [''login'', ''--api-key'', apiKey]),
             Unlock])
       \<and> fst (Login W codex apiKey) \<noteq> Some (errors_New ''invalid log level'')
       \<and> (fst (applyOptions options invokeOptions_zero) = None \<longrightarrow>
            (\<exists>cmd rest. snd (Invoke W codex prompt options) = EvConnect cmd # rest
               \<and> Env cmd = None \<and> Stderr cmd = None))"
proof -
  have c: "command W codex arg = Inr (exec_CommandContext W (executablePath codex) arg)" for arg
    using assms by (simp add: command_def Let_def)
  have f: "Env (exec_CommandContext W (executablePath codex) arg :: 'w Cmd) = None
         \<and> Stderr (exec_CommandContext W (executablePath codex) arg :: 'w Cmd) = None" for arg
    by (simp add: exec_CommandContext_fields)
  have l: "Login W codex apiKey =
           (map_option External
              (Run W (exec_CommandContext W (executablePath codex)
                        [''login'', ''--api-key'', apiKey])),
            [Lock,
             EvRun (exec_CommandContext W (executablePath codex)
                      [''login'', ''--api-key'', apiKey]),
             Unlock])"
    by (simp add: Login_def c split: option.split)
  have n: "fst (Login W codex apiKey) \<noteq> Some (errors_New ''invalid log level'')"
    unfolding l by (simp split: option.split)
  have i: "\<exists>cmd rest. snd (Invoke W codex prompt options) = EvConnect cmd # rest
               \<and> Env cmd = None \<and> Stderr cmd = None"
    if "fst (applyOptions options invokeOptions_zero) = None"
  proof -
    from that obtain opts where ap: "applyOptions options invokeOptions_zero = (None, opts)"
      by (cases "applyOptions options invokeOptions_zero") simp
    define cmd where "cmd = (case Cwd opts of
        None \<Rightarrow> exec_CommandContext W (executablePath codex) [''mcp'']
      | Some d \<Rightarrow> (exec_CommandContext W (executablePath codex) [''mcp''] :: 'w Cmd)\<lparr>Dir := d\<rparr>)"
    have e: "Env cmd = None \<and> Stderr cmd = None"
      by (simp add: cmd_def exec_CommandContext_fields split: option.split)
    show ?thesis
    proof (cases "Connect W cmd")
      case (Some msg)
      show ?thesis unfolding Invoke_connect_error[OF ap c cmd_def Some] using e by simp
    next
      case None
      show ?thesis unfolding Invoke_connected[OF ap c cmd_def None refl] using e by simp
    qed
  qed
  from c f l n i show ?thesis by blast
qed

theorem no_log_sink_skips_validation_witness:
  "command (mock_World [''HOME=/root'']
              (Inr \<lparr>Content = [TextContent ''ok''], IsError = False\<rparr>) :: (nat, nat) World)
      (New [WithLogger None ''verbose'']) [''mcp'']
     = Inr \<lparr>Path = ''/usr/bin/codex'', Args = [''codex'', ''mcp''], Env = None, Dir = [],
            Stderr = None, Err = None\<rparr>
   \<and> (\<exists>cmd rest.
        snd (Invoke (mock_World [''HOME=/root'']
                (Inr \<lparr>Content = [TextContent ''ok''], IsError = False\<rparr>) :: (nat, nat) World)
              (New [WithLogger None ''verbose'']) ''hello'' [WithModel ''o3''])
          = EvConnect cmd # rest
      \<and> Env cmd = None \<and> Stderr cmd = None)"
proof -
  let ?codex = "New [WithLogger None ''verbose''] :: nat Codex"
  have w: "logWriter ?codex = None"
    by (simp add: New_def WithLogger_def SetLogger_def)
  have p: "executablePath ?codex = ''codex''"
    by (simp add: New_def WithLogger_def SetLogger_def)
  have ap: "fst (applyOptions [WithModel ''o3''] (invokeOptions_zero :: nat invokeOptions)) = None"
    by (simp add: WithModel_def)
  let ?W = "mock_World [''HOME=/root'']
              (Inr \<lparr>Content = [TextContent ''ok''], IsError = False\<rparr>) :: (nat, nat) World"
  note t = no_log_sink_skips_validation[OF w, of ?W "[''mcp'']" "[]" "[WithModel ''o3'']"
             "''hello''"]
  from t have c: "command ?W ?codex [''mcp'']
      = Inr (exec_CommandContext ?W (executablePath ?codex) [''mcp''])"
    by blast
  from t ap have i: "\<exists>cmd rest.
        snd (Invoke ?W ?codex ''hello'' [WithModel ''o3'']) = EvConnect cmd # rest
      \<and> Env cmd = None \<and> Stderr cmd = None"
    by blast
  from c have "command ?W ?codex [''mcp'']
     = Inr \<lparr>Path = ''/usr/bin/codex'', Args = [''codex'', ''mcp''], Env = None, Dir = [],
            Stderr = None, Err = None\<rparr>"
    unfolding p by (simp add: mock_CommandContext)
  with i show ?thesis by blast
qed

lemma Login_trace:
  "snd (Login W codex apiKey) = [Lock, Unlock]
   \<or> (\<exists>cmd. snd (Login W codex apiKey) = [Lock, EvRun cmd, Unlock])"
  by (simp add: Login_def split: sum.split option.split)

lemma mutex_ok_other:
  "e \<noteq> Lock \<Longrightarrow> e \<noteq> Unlock \<Longrightarrow> mutex_ok held ((i, e) # es) = mutex_ok held es"
  by (cases e) simp_all

text \<open>While one call holds the mutex, a second call cannot get past its \<open>Lock\<close>.\<close>

lemma held_shuffle:
  assumes "s \<in> shuffles (map (Pair i) (mid @ [Unlock])) ((j, Lock) # v)"
    and "mutex_ok True s"
    and "Lock \<notin> set mid" and "Unlock \<notin> set mid"
  shows "s = map (Pair i) (mid @ [Unlock]) @ (j, Lock) # v"
  using assms
proof (induction mid arbitrary: s)
  case Nil
  then show ?case by auto
next
  case (Cons e mid)
  from Cons.prems(3,4) have e: "e \<noteq> Lock" "e \<noteq> Unlock" by auto
  from Cons.prems(1) consider
      s' where "s = (i, e) # s'"
        "s' \<in> shuffles (map (Pair i) (mid @ [Unlock])) ((j, Lock) # v)"
    | s' where "s = (j, Lock) # s'"
    by auto
  then show ?case
  proof cases
    case 1
    from Cons.prems(2) have "mutex_ok True s'"
      unfolding 1(1) by (simp add: mutex_ok_other[OF e])
    from Cons.IH[OF 1(2) this] Cons.prems(3,4) show ?thesis
      unfolding 1(1) by simp
  next
    case 2
    with Cons.prems(2) show ?thesis by simp
  qed
qed

lemma bracket_shuffle:
  fixes mid mid' :: "('w, 'c) event list"
  assumes s: "s \<in> shuffles (map (Pair i) (Lock # mid @ [Unlock]))
                            (map (Pair j) (Lock # mid' @ [Unlock]))"
    and m: "mutex_ok False s"
    and n: "Lock \<notin> set mid" "Unlock \<notin> set mid" "Lock \<notin> set mid'" "Unlock \<notin> set mid'"
  shows "s = map (Pair i) (Lock # mid @ [Unlock]) @ map (Pair j) (Lock # mid' @ [Unlock])
       \<or> s = map (Pair j) (Lock # mid' @ [Unlock]) @ map (Pair i) (Lock # mid @ [Unlock])"
proof -
  from s consider
      s' where "s = (i, Lock) # s'"
        "s' \<in> shuffles (map (Pair i) (mid @ [Unlock])) ((j, Lock) # map (Pair j) (mid' @ [Unlock]))"
    | s' where "s = (j, Lock) # s'"
        "s' \<in> shuffles ((i, Lock) # map (Pair i) (mid @ [Unlock])) (map (Pair j) (mid' @ [Unlock]))"
    by auto
  then show ?thesis
  proof cases
    case 1
    from m have "mutex_ok True s'" unfolding 1(1) by simp
    from held_shuffle[OF 1(2) this n(1,2)] show ?thesis unfolding 1(1) by simp
  next
    case 2
    from m have h: "mutex_ok True s'" unfolding 2(1) by simp
    from 2(2) have "s' \<in> shuffles (map (Pair j) (mid' @ [Unlock]))
                                   ((i, Lock) # map (Pair i) (mid @ [Unlock]))"
      by (simp add: shuffles_commutes)
    from held_shuffle[OF this h n(3,4)] show ?thesis unfolding 2(1) by simp
  qed
qed

lemma mutex_ok_bracket:
  fixes mid :: "('w, 'c) event list"
  assumes "Lock \<notin> set mid" "Unlock \<notin> set mid"
  shows "mutex_ok False (map (Pair i) (Lock # mid @ [Unlock]) @ es) = mutex_ok False es"
proof -
  have "mutex_ok True (map (Pair i) (mid @ [Unlock]) @ es) = mutex_ok False es"
    using assms by (induction mid) (auto simp: mutex_ok_other)
  then show ?thesis by simp
qed

lemma append_in_shuffles: "xs @ ys \<in> shuffles xs ys"
  by (induction xs) (simp_all add: Cons_in_shuffles_leftI)

section \<open>Mutual exclusion of Login\<close>

text \<open>
  C9. Two Login calls on the same client never overlap. Every run of Login, whether it
  ends in an error or not, takes the client's lock first and releases it last, with at
  most the run of the login process in between. Whenever the events of two calls on one
  client are interleaved in a way the mutex allows, the interleaving is all of one call
  followed by all of the other, so that the two login processes never run at the same
  time; and running the calls one after the other is such an interleaving.
\<close>

theorem Login_calls_never_overlap:
  fixes W1 W2 :: "('w, 'c) World" and codex :: "'w Codex"
  assumes "s \<in> shuffles (map (Pair i) (snd (Login W1 codex key1)))
                         (map (Pair j) (snd (Login W2 codex key2)))"
    and "mutex_ok False s"
  shows "(s = map (Pair i) (snd (Login W1 codex key1)) @ map (Pair j) (snd (Login W2 codex key2))
          \<or> s = map (Pair j) (snd (Login W2 codex key2)) @ map (Pair i) (snd (Login W1 codex key1)))
       \<and> (\<exists>mid. snd (Login W1 codex key1) = Lock # mid @ [Unlock]
             \<and> (mid = [] \<or> (\<exists>cmd. mid = [EvRun cmd])))
       \<and> (\<exists>mid. snd (Login W2 codex key2) = Lock # mid @ [Unlock]
             \<and> (mid = [] \<or> (\<exists>cmd. mid = [EvRun cmd])))
       \<and> mutex_ok False (map (Pair i) (snd (Login W1 codex key1))
                           @ map (Pair j) (snd (Login W2 codex key2)))"
proof -
  have shape: "\<exists>mid. snd (Login W codex k) = Lock # mid @ [Unlock]
                 \<and> (mid = [] \<or> (\<exists>cmd. mid = [EvRun cmd]))"
    for W :: "('w, 'c) World" and k
    using Login_trace[of W codex k] by auto
  from shape[of W1 key1] obtain mid1 where
    t1: "snd (Login W1 codex key1) = Lock # mid1 @ [Unlock]"
    and m1: "mid1 = [] \<or> (\<exists>cmd. mid1 = [EvRun cmd])"
    by blast
  from shape[of W2 key2] obtain mid2 where
    t2: "snd (Login W2 codex key2) = Lock # mid2 @ [Unlock]"
    and m2: "mid2 = [] \<or> (\<exists>cmd. mid2 = [EvRun cmd])"
    by blast
  from m1 have n1: "Lock \<notin> set mid1" "Unlock \<notin> set mid1" by auto
  from m2 have n2: "Lock \<notin> set mid2" "Unlock \<notin> set mid2" by auto
  have serial: "s = map (Pair i) (snd (Login W1 codex key1)) @ map (Pair j) (snd (Login W2 codex key2))
          \<or> s = map (Pair j) (snd (Login W2 codex key2)) @ map (Pair i) (snd (Login W1 codex key1))"
    using bracket_shuffle[OF assms(1)[unfolded t1 t2] assms(2) n1 n2] unfolding t1 t2 .
  have "mutex_ok False (map (Pair j) (Lock # mid2 @ [Unlock]) @ [])"
    unfolding mutex_ok_bracket[OF n2] by simp
  then have ok: "mutex_ok False (map (Pair i) (snd (Login W1 codex key1))
                           @ map (Pair j) (snd (Login W2 codex key2)))"
    unfolding t1 t2 mutex_ok_bracket[OF n1] by simp
  from serial shape[of W1 key1] shape[of W2 key2] ok show ?thesis by blast
qed

theorem Login_calls_never_overlap_witness:
  "[(1::nat, Lock),
    (1, EvRun \<lparr>Path = ''/usr/bin/codex'', Args = [''codex'', ''login'', ''--api-key'', ''k1''],
               Env = None, Dir = [], Stderr = None, Err = None\<rparr>),
    (1, Unlock),
    (2, Lock),
    (2, EvRun \<lparr>Path = ''/usr/bin/codex'', Args = [''codex'', ''login'', ''--api-key'', ''k2''],
               Env = None, Dir = [], Stderr = None, Err = None\<rparr>),
    (2, Unlock)]
     \<in> shuffles
         (map (Pair 1) (snd (Login (mock_World [] (Inl ''unused'') :: (nat, nat) World)
                               (New []) ''k1'')))
         (map (Pair 2) (snd (Login (mock_World [] (Inl ''unused'') :: (nat, nat) World)
                               (New []) ''k2'')))
   \<and> [(1::nat, Lock),
    (1, EvRun \<lparr>Path = ''/usr/bin/codex'', Args = [''codex'', ''login'', ''--api-key'', ''k1''],
               Env = None, Dir = [], Stderr = None, Err = None\<rparr>),
    (1, Unlock),
    (2, Lock),
    (2, EvRun \<lparr>Path = ''/usr/bin/codex'', Args = [''codex'', ''login'', ''--api-key'', ''k2''],
               Env = None, Dir = [], Stderr = None, Err = None\<rparr>),
    (2, Unlock)]
     = map (Pair 1) (snd (Login (mock_World [] (Inl ''unused'') :: (nat, nat) World)
                               (New []) ''k1''))
       @ map (Pair 2) (snd (Login (mock_World [] (Inl ''unused'') :: (nat, nat) World)
                               (New []) ''k2''))
   \<and> \<not> mutex_ok False
        [(1::nat, Lock :: (nat, nat) event), (2, Lock), (1, Unlock), (2, Unlock)]"
proof -
  let ?W = "mock_World [] (Inl ''unused'') :: (nat, nat) World"
  let ?c = "\<lambda>k. \<lparr>Path = ''/usr/bin/codex'', Args = [''codex'', ''login'', ''--api-key'', k],
               Env = None, Dir = [], Stderr = None, Err = None\<rparr> :: nat Cmd"
  let ?s = "[(1::nat, Lock), (1, EvRun (?c ''k1'')), (1, Unlock),
             (2, Lock), (2, EvRun (?c ''k2'')), (2, Unlock)] :: (nat \<times> (nat, nat) event) list"
  have t: "snd (Login ?W (New []) k) = [Lock, EvRun (?c k), Unlock]" for k
    by (simp add: Login_def command_def New_def mock_CommandContext)
       (simp add: mock_World_def)
  have e: "?s = map (Pair 1) (snd (Login ?W (New []) ''k1''))
              @ map (Pair 2) (snd (Login ?W (New []) ''k2''))"
    unfolding t by simp
  have h: "?s \<in> shuffles (map (Pair 1) (snd (Login ?W (New []) ''k1'')))
                          (map (Pair 2) (snd (Login ?W (New []) ''k2'')))"
    unfolding e by (rule append_in_shuffles)
  have m: "mutex_ok False ?s" by simp
  have r: "\<not> mutex_ok False
        [(1::nat, Lock :: (nat, nat) event), (2, Lock), (1, Unlock), (2, Unlock)]"
    by simp
  from Login_calls_never_overlap[OF h m] e h r show ?thesis by blast
qed

end
